theory Spec2Isabelle
  imports Main "HOL-Library.Word"
begin

section \<open>Common conventions\<close>

text \<open>
  C strings are modelled by their contents (the characters before the terminating NUL).
  A pointer that may be NULL is an \<open>option\<close>.  A heap allocation can fail; the
  allocator's answer to a request of \<open>n\<close> bytes is a parameter \<open>alloc_ok n\<close> of the
  functions that check the result of \<open>malloc\<close>, \<open>calloc\<close> or \<open>strdup\<close>.
\<close>

type_synonym allocator = "nat \<Rightarrow> bool"

text \<open>
  The error-reporting utility (\<open>err.h\<close>) is not part of the sources.
  Modelled from the spec: the error-reporting utility is assumed; \<open>err(eval, msg, ...)\<close> and
  \<open>errx(eval, msg, ...)\<close> report \<open>msg\<close> and return \<open>eval\<close>.
\<close>

definition err :: "int \<Rightarrow> string \<Rightarrow> int" where
  "err eval msg = eval"

definition errx :: "int \<Rightarrow> string \<Rightarrow> int" where
  "errx eval msg = eval"


section \<open>Metadata urls (dlite.c)\<close>

subsection \<open>dlite\_join\_metadata\<close>

text \<open>
  \<open>size = strlen(name) + strlen(version) + strlen(namespace) + 3\<close> bytes are requested and
  \<open>snprintf(metadata, size, "%s/%s/%s", namespace, version, name)\<close> fills them; the
  formatted text has \<open>size - 1\<close> characters, so nothing is truncated.  NULL is returned
  when the allocation fails.
\<close>

definition dlite_join_metadata :: "allocator \<Rightarrow> string \<Rightarrow> string \<Rightarrow> string \<Rightarrow> string option" where
  "dlite_join_metadata alloc_ok name version namespace =
     (let size = length name + length version + length namespace + 3 in
      if \<not> alloc_ok size then None
      else Some (take (size - 1) (namespace @ ''/'' @ version @ ''/'' @ name)))"

subsection \<open>dlite\_split\_metadata\<close>

text \<open>\<open>strrchr(s, c)\<close> for a non-NUL \<open>c\<close>: the index of the last occurrence, or NULL.\<close>

fun strrchr :: "string \<Rightarrow> char \<Rightarrow> nat option" where
  "strrchr [] c = None"
| "strrchr (x # xs) c =
     (case strrchr xs c of
        Some i \<Rightarrow> Some (Suc i)
      | None \<Rightarrow> if x = c then Some 0 else None)"

text \<open>
  Reading \<open>s[i]\<close> of a C string: the characters, then the terminating NUL; any other index
  is outside the object.
\<close>

definition char_at :: "string \<Rightarrow> int \<Rightarrow> char option" where
  "char_at s i =
     (if 0 \<le> i \<and> i < int (length s) then Some (s ! nat i)
      else if i = int (length s) then Some (CHR 0x00)
      else None)"

text \<open>
  The loop \<open>while (*q != '/' && q > metadata) q--;\<close> with \<open>q\<close> as an index into
  \<open>metadata\<close>.  \<open>*q\<close> is read first; \<open>None\<close> is a read outside the string.
\<close>

function scan_back :: "string \<Rightarrow> int \<Rightarrow> int option" where
  "scan_back metadata q =
     (case char_at metadata q of
        None \<Rightarrow> None
      | Some c \<Rightarrow> if c \<noteq> CHR ''/'' \<and> q > 0 then scan_back metadata (q - 1) else Some q)"
  by pat_completeness auto
termination
  by (relation "measure (\<lambda>(metadata, q). nat q)") auto

declare scan_back.simps [simp del]

text \<open>
  The outcome of \<open>dlite_split_metadata\<close>: the three output strings on return value 0
  (an output is \<open>None\<close> when the caller passed NULL for it), return value 1, or a read
  outside \<open>metadata\<close> (undefined behaviour).
\<close>

datatype split_result =
    Split "string option" "string option" "string option"
  | Split_Fail
  | Split_Out_Of_Bounds

text \<open>
  \<open>want_name\<close>, \<open>want_version\<close> and \<open>want_namespace\<close> say whether the output pointers
  \<open>name\<close>, \<open>version\<close> and \<open>namespace\<close> are non-NULL.
\<close>

definition dlite_split_metadata ::
  "allocator \<Rightarrow> string \<Rightarrow> bool \<Rightarrow> bool \<Rightarrow> bool \<Rightarrow> split_result" where
  "dlite_split_metadata alloc_ok metadata want_name want_version want_namespace =
     (case strrchr metadata CHR ''/'' of
        None \<Rightarrow> Split_Fail
      | Some p \<Rightarrow>
          (case scan_back metadata (int p - 1) of
             None \<Rightarrow> Split_Out_Of_Bounds
           | Some q \<Rightarrow>
               if q = 0 then Split_Fail
               else if want_name \<and> \<not> alloc_ok (length (drop (p + 1) metadata) + 1)
                 then Split_Fail
               else if want_version \<and> \<not> alloc_ok (p - nat q)
                 then Split_Fail
               else if want_namespace \<and> \<not> alloc_ok (nat q + 1)
                 then Split_Fail
               else Split
                 (if want_name then Some (drop (p + 1) metadata) else None)
                 (if want_version
                    then Some (take (p - nat q - 1) (drop (nat q + 1) metadata)) else None)
                 (if want_namespace then Some (take (nat q) metadata) else None)))"

text \<open>The return value of \<open>dlite_split_metadata\<close>, where it returns.\<close>

fun split_retval :: "split_result \<Rightarrow> int option" where
  "split_retval (Split n v ns) = Some 0"
| "split_retval Split_Fail = Some 1"
| "split_retval Split_Out_Of_Bounds = None"


section \<open>UUIDs (getuuid.c)\<close>

text \<open>
  The buffer \<open>buff\<close> is a character array (a list of the bytes it holds, NUL included);
  \<open>c_string\<close> reads the C string that starts at its beginning.
\<close>

definition UUID_LEN :: nat where
  "UUID_LEN = 36"

definition NUL :: char where
  "NUL = CHR 0x00"

text \<open>\<open>tolower\<close> of the C locale: the letters A to Z are mapped to a to z.\<close>

definition tolower :: "char \<Rightarrow> char" where
  "tolower c =
     (if 65 \<le> (of_char c :: nat) \<and> (of_char c :: nat) \<le> 90
      then char_of ((of_char c :: nat) + 32) else c)"

definition c_string :: "char list \<Rightarrow> string" where
  "c_string buff = takeWhile (\<lambda>c. c \<noteq> NUL) buff"

text \<open>
  Writing a string and its terminating NUL at the start of a buffer, and
  \<open>strncpy(buff, src, n)\<close>: exactly \<open>n\<close> bytes are written, the characters of \<open>src\<close>
  and then NUL padding.
\<close>

definition write_string :: "char list \<Rightarrow> string \<Rightarrow> char list" where
  "write_string buff s = s @ [NUL] @ drop (length s + 1) buff"

definition strncpy :: "char list \<Rightarrow> string \<Rightarrow> nat \<Rightarrow> char list" where
  "strncpy buff src n = take n src @ replicate (n - length src) NUL @ drop n buff"

text \<open>The loop \<open>for (i=0; i < UUID_LEN; i++) buff[i] = tolower(buff[i]);\<close> from index \<open>i\<close>.\<close>

function lower_loop :: "nat \<Rightarrow> char list \<Rightarrow> char list" where
  "lower_loop i buff =
     (if i < UUID_LEN then lower_loop (i + 1) (buff[i := tolower (buff ! i)]) else buff)"
  by pat_completeness auto
termination
  by (relation "measure (\<lambda>(i, buff). UUID_LEN - i)") auto

declare lower_loop.simps [simp del]

text \<open>
  The UUID library (\<open>utils/uuid.h\<close>, \<open>utils/uuid4.h\<close>) is not part of the sources; what
  \<open>getuuidn\<close> calls of it is a parameter:
  \<^item> \<open>uuid4_generate buff\<close> gives the status that \<open>uuid4_generate(buff)\<close> returns and
    the buffer as it leaves it;
  \<^item> \<open>uuid_create_sha1_from_name ns name len\<close> is the UUID that
    \<open>uuid_create_sha1_from_name(&uuid, ns, name, len)\<close> stores, \<open>NameSpace_DNS\<close> the
    namespace constant;
  \<^item> \<open>uuid_as_string u\<close> is the text that \<open>uuid_as_string(&u, buff)\<close> writes
    (followed by a NUL) into \<open>buff\<close>.
\<close>

record 'u uuid_lib =
  uuid4_generate :: "char list \<Rightarrow> int \<times> char list"
  NameSpace_DNS :: "'u"
  uuid_create_sha1_from_name :: "'u \<Rightarrow> string \<Rightarrow> nat \<Rightarrow> 'u"
  uuid_as_string :: "'u \<Rightarrow> string"

text \<open>
  Modelled from the spec: \<open>uuid_from_string\<close> (\<open>utils/uuid.c\<close>) is not part of the
  sources.  The spec calls an id a valid UUID string when it has
  "36 chars, correct hyphens/hex", of the form 8-4-4-4-12;
  \<open>uuid_from_string(NULL, str, len)\<close> returns 0 for such a string and non-zero otherwise.
\<close>

definition is_xdigit :: "char \<Rightarrow> bool" where
  "is_xdigit c \<longleftrightarrow>
     (let n = (of_char c :: nat) in
      (48 \<le> n \<and> n \<le> 57) \<or> (65 \<le> n \<and> n \<le> 70) \<or> (97 \<le> n \<and> n \<le> 102))"

definition valid_uuid_string :: "string \<Rightarrow> bool" where
  "valid_uuid_string s \<longleftrightarrow>
     length s = 36 \<and>
     list_all (\<lambda>i. if i = 8 \<or> i = 13 \<or> i = 18 \<or> i = 23
                     then s ! i = CHR ''-'' else is_xdigit (s ! i)) [0..<36]"

definition uuid_from_string :: "string \<Rightarrow> nat \<Rightarrow> int" where
  "uuid_from_string str len = (if valid_uuid_string (take len str) then 0 else 1)"

text \<open>
  \<open>getuuidn(buff, id, len)\<close> returns the version and leaves the UUID in \<open>buff\<close>; the
  result is the pair of the return value and the buffer.
\<close>

definition getuuidn :: "'u uuid_lib \<Rightarrow> char list \<Rightarrow> string option \<Rightarrow> nat \<Rightarrow> int \<times> char list" where
  "getuuidn lib buff id' len =
     (let id' = (if len = 0 then None else id');
          (version, buff) =
            (if id' = None \<or> id' = Some [] then
               (let (status, buff) = uuid4_generate lib buff
                in (if status = 0 then 4 else - 1, buff))
             else if uuid_from_string (the id') len \<noteq> 0 then
               (5, write_string buff
                     (uuid_as_string lib
                        (uuid_create_sha1_from_name lib (NameSpace_DNS lib) (the id') len)))
             else
               (0, (strncpy buff (the id') UUID_LEN)[UUID_LEN := NUL]))
      in (version, lower_loop 0 buff))"

text \<open>\<open>getuuid(buff, id)\<close> passes \<open>(id) ? strlen(id) : 0\<close> as length.\<close>

definition getuuid :: "'u uuid_lib \<Rightarrow> char list \<Rightarrow> string option \<Rightarrow> int \<times> char list" where
  "getuuid lib buff id' = getuuidn lib buff id' (case id' of None \<Rightarrow> 0 | Some s \<Rightarrow> length s)"

text \<open>\<open>dlite_get_uuid\<close> (dlite.c) is \<open>getuuid\<close>.\<close>

definition dlite_get_uuid :: "'u uuid_lib \<Rightarrow> char list \<Rightarrow> string option \<Rightarrow> int \<times> char list" where
  "dlite_get_uuid lib buff id' = getuuid lib buff id'"

text \<open>A buffer with its first \<open>UUID_LEN\<close> bytes in lower case.\<close>

definition lower36 :: "char list \<Rightarrow> char list" where
  "lower36 buff = map tolower (take UUID_LEN buff) @ drop UUID_LEN buff"


text \<open>
  A stand-in for the UUID library, used to run \<open>getuuid\<close> on concrete inputs: the
  generator writes a fixed UUID, and the "SHA-1" UUID of a name is the first 36 characters
  of the name followed by the namespace.
\<close>

definition example_uuid_lib :: "string uuid_lib" where
  "example_uuid_lib =
     \<lparr>uuid4_generate = (\<lambda>buff. (0, write_string buff ''F47AC10B-58CC-4372-A567-0E02B2C3D479'')),
      NameSpace_DNS = ''6ba7b810-9dad-11d1-80b4-00c04fd430c8'',
      uuid_create_sha1_from_name = (\<lambda>ns name len. take 36 (take len name @ ns)),
      uuid_as_string = (\<lambda>u. u)\<rparr>"


section \<open>Storage plugins and entity loading\<close>

text \<open>
  The plugin record of this version (with \<open>getEntity\<close> and \<open>setEntity\<close>) is declared in
  a header that is not part of the sources; of \<open>DLitePlugin\<close> only the two members that
  \<open>dlite_entity_load\<close> reads are kept.  \<open>getEntity = None\<close> is a NULL function pointer;
  \<open>Some get\<close> is the driver's function, applied to the storage it belongs to, from the
  uuid to the entity it returns (NULL is \<open>None\<close>).
\<close>

record 'e DLitePlugin =
  plugin_name :: string
  getEntity :: "(string \<Rightarrow> 'e option) option"

record 'e DLiteStorage =
  api :: "'e DLitePlugin"
  storage_uri :: string
  storage_options :: string
  writable :: int

text \<open>
  The outcome of \<open>dlite_entity_load\<close>: NULL after \<open>errx\<close> reported a message, or what the
  driver's \<open>getEntity\<close> returned.
\<close>

datatype 'e entity_load_result =
    Load_Error string
  | Load_Dispatched "'e option"

text \<open>
  \<open>uuid\<close> is the local array \<open>char uuid[DLITE_UUID_LENGTH+1]\<close> as it is on entry
  (not initialised).  The test \<open>(uuidver = dlite_get_uuid(uuid, id)) != 0 || uuidver != 5\<close>
  is kept as written.
\<close>

definition dlite_entity_load ::
  "'u uuid_lib \<Rightarrow> char list \<Rightarrow> 'e DLiteStorage \<Rightarrow> string option \<Rightarrow> 'e entity_load_result" where
  "dlite_entity_load lib uuid s id' =
     (case getEntity (api s) of
        None \<Rightarrow>
          Load_Error (''driver '' @ [CHR 0x27] @ plugin_name (api s) @ [CHR 0x27] @
                      '' does not support getEntity()'')
      | Some get \<Rightarrow>
          (let (uuidver, uuid) = dlite_get_uuid lib uuid id' in
           if uuidver \<noteq> 0 \<or> uuidver \<noteq> 5 then
             Load_Error (''id '' @ [CHR 0x27] @ (case id' of None \<Rightarrow> ''(null)'' | Some i \<Rightarrow> i) @
                         [CHR 0x27] @
                         '' is not an UUID or a string that we can generate an uuid from'')
           else Load_Dispatched (get (c_string uuid))))"


section \<open>Entities and instances (dlite-entity.c)\<close>

text \<open>
  The header that declares \<open>DLiteMeta\<close>, \<open>DLiteProperty\<close>, \<open>DLiteDimension\<close> and
  \<open>DLiteInstance\<close> is not part of the sources; the members are those the code reads
  and writes.  \<open>size_t\<close> and the pointers are 64 bits wide, \<open>int\<close> is 32 bits wide.
  The counts \<open>ndimensions\<close> and \<open>nproperties\<close> and the byte offsets \<open>dimoffset\<close> and
  \<open>propoffsets[i]\<close>, which the functions below only compare and add to the address of
  the block, are naturals.
\<close>

type_synonym size_t = "64 word"
type_synonym byte = "8 word"
type_synonym addr = nat

definition INT_MAX :: int where
  "INT_MAX = 2147483647"

definition INT_MIN :: int where
  "INT_MIN = - 2147483648"

text \<open>
  What a call does: it returns (\<open>Ret\<close>), it has undefined behaviour (\<open>UB\<close>: a read
  or write outside an object, a NULL or dangling pointer dereferenced, memory freed
  twice, a signed integer overflow), or the recursion of \<open>dlite_meta_decref\<close> along the
  \<open>meta\<close> pointers was cut off (\<open>Out_Of_Fuel\<close>).
\<close>

datatype 'a result = UB | Out_Of_Fuel | Ret 'a

datatype DLiteType =
  dliteBlob | dliteBool | dliteInt | dliteUInt | dliteFloat | dliteFixString | dliteStringPtr

record DLiteDimension =
  dim_name :: string
  dim_description :: "string option"

record DLiteProperty =
  prop_name :: string
  prop_type :: DLiteType
  prop_size :: size_t
  prop_ndims :: int
  prop_dims :: "int list option"
  prop_description :: "string option"
  prop_unit :: "string option"

text \<open>
  \<open>refcount\<close> is a C \<open>int\<close>: its values lie between \<open>INT_MIN\<close> and \<open>INT_MAX\<close>, and
  the functions that change it have undefined behaviour where the result would not.
  \<open>propoffsets\<close> is the array that the pointer of that name points to.
\<close>

record DLiteMeta =
  meta_uuid :: "char list"
  meta_uri :: "string option"
  meta_meta :: "addr option"
  meta_description :: "string option"
  meta_size :: size_t
  dimoffset :: nat
  propoffsets :: "nat list"
  refcount :: int
  dimensions :: "DLiteDimension list option"
  properties :: "DLiteProperty list option"
  ndimensions :: nat
  nproperties :: nat

text \<open>
  An instance is one block of \<open>meta->size\<close> bytes.  The members of its header
  (\<open>uuid\<close>, \<open>uri\<close>, \<open>meta\<close>) are kept as members of the record; \<open>inst_block\<close> is the
  whole block, byte by byte, in which the functions address the dimension sizes and the
  property slots through \<open>dimoffset\<close> and \<open>propoffsets[i]\<close>.  The first
  \<open>header_size\<close> bytes of the block are those of the header.
\<close>

record DLiteInstance =
  inst_uuid :: "char list"
  inst_uri :: "string option"
  inst_meta :: "addr option"
  inst_block :: "byte list"

text \<open>
  Modelled from the spec: the header of an instance is "\<open>uuid[37]\<close>, optional canonical
  \<open>uri\<close>, pointer/handle to \<open>meta\<close>"; with 8-byte pointers these end at byte 56.
\<close>

definition header_size :: nat where
  "header_size = 56"

text \<open>
  The memory the functions work on: the metadata objects by address (\<open>refcount\<close> is a
  member of the shared object), the heap arrays by address, each as its bytes, and the last
  address the allocator handed out.
\<close>

record state =
  metas :: "addr \<Rightarrow> DLiteMeta option"
  heap :: "addr \<Rightarrow> byte list option"
  next_addr :: addr

definition DLITE_UUID_LENGTH :: nat where
  "DLITE_UUID_LENGTH = 36"

subsection \<open>Bytes of the block\<close>

text \<open>A \<open>size_t\<close> as its 8 bytes, least significant first, and back.\<close>

fun le_bytes :: "nat \<Rightarrow> nat \<Rightarrow> byte list" where
  "le_bytes 0 n = []"
| "le_bytes (Suc k) n = of_nat (n mod 256) # le_bytes k (n div 256)"

definition bytes_of_size_t :: "size_t \<Rightarrow> byte list" where
  "bytes_of_size_t w = le_bytes 8 (unat w)"

definition nat_of_bytes :: "byte list \<Rightarrow> nat" where
  "nat_of_bytes bs = foldr (\<lambda>b acc. unat b + 256 * acc) bs 0"

definition size_t_of_bytes :: "byte list \<Rightarrow> size_t" where
  "size_t_of_bytes bs = of_nat (nat_of_bytes bs)"

text \<open>A pointer as a \<open>size_t\<close>: NULL is 0, an address is its number.\<close>

definition size_t_of_ptr :: "addr option \<Rightarrow> size_t" where
  "size_t_of_ptr p = (case p of None \<Rightarrow> 0 | Some a \<Rightarrow> of_nat a)"

definition ptr_of_size_t :: "size_t \<Rightarrow> addr option" where
  "ptr_of_size_t w = (if w = 0 then None else Some (unat w))"

definition ptr_of_bytes :: "byte list \<Rightarrow> addr option" where
  "ptr_of_bytes bs = ptr_of_size_t (size_t_of_bytes bs)"

text \<open>
  Reading and writing 8 bytes of the block at the byte offset \<open>off\<close> from its start.
  An access that leaves the block is undefined.  An access that reaches into the header
  would read or change the members that are kept apart from the bytes; it is given as
  undefined as well.
\<close>

definition in_block :: "byte list \<Rightarrow> int \<Rightarrow> nat \<Rightarrow> bool" where
  "in_block block off n \<longleftrightarrow> int header_size \<le> off \<and> off + int n \<le> int (length block)"

definition store_bytes :: "byte list \<Rightarrow> nat \<Rightarrow> byte list \<Rightarrow> byte list" where
  "store_bytes block off bs = take off block @ bs @ drop (off + length bs) block"

definition load_size_t :: "byte list \<Rightarrow> int \<Rightarrow> size_t result" where
  "load_size_t block off =
     (if in_block block off 8 then Ret (size_t_of_bytes (take 8 (drop (nat off) block))) else UB)"

definition store_size_t :: "byte list \<Rightarrow> int \<Rightarrow> size_t \<Rightarrow> byte list result" where
  "store_size_t block off w =
     (if in_block block off 8 then Ret (store_bytes block (nat off) (bytes_of_size_t w)) else UB)"

definition load_ptr :: "byte list \<Rightarrow> int \<Rightarrow> addr option result" where
  "load_ptr block off =
     (case load_size_t block off of Ret w \<Rightarrow> Ret (ptr_of_size_t w) | UB \<Rightarrow> UB | Out_Of_Fuel \<Rightarrow> Out_Of_Fuel)"

definition store_ptr :: "byte list \<Rightarrow> int \<Rightarrow> addr option \<Rightarrow> byte list result" where
  "store_ptr block off p = store_size_t block off (size_t_of_ptr p)"

subsection \<open>The allocator\<close>

text \<open>
  \<open>calloc(nmemb, size)\<close>: NULL when the product overflows, when the allocator refuses or
  when the addresses are used up, else a new array of \<open>nmemb * size\<close> zeroed
  bytes.  \<open>free(p)\<close>: nothing for NULL, undefined for an address that is not
  allocated.  \<open>strdup(s)\<close>, which asks for \<open>strlen(s) + 1\<close> bytes: the copy, or NULL.
\<close>

definition calloc :: "allocator \<Rightarrow> state \<Rightarrow> size_t \<Rightarrow> size_t \<Rightarrow> state \<times> addr option" where
  "calloc alloc_ok st nmemb size' =
     (if unat nmemb * unat size' \<ge> 2 ^ 64 \<or> \<not> alloc_ok (unat nmemb * unat size') \<or>
         Suc (next_addr st) \<ge> 2 ^ 64
      then (st, None)
      else (st\<lparr>heap := (heap st)(Suc (next_addr st) \<mapsto>
                        replicate (unat nmemb * unat size') 0),
               next_addr := Suc (next_addr st)\<rparr>,
            Some (Suc (next_addr st))))"

definition free :: "state \<Rightarrow> addr option \<Rightarrow> state result" where
  "free st p =
     (case p of
        None \<Rightarrow> Ret st
      | Some a \<Rightarrow> if heap st a = None then UB else Ret (st\<lparr>heap := (heap st)(a := None)\<rparr>))"

definition strdup :: "allocator \<Rightarrow> string \<Rightarrow> string option" where
  "strdup alloc_ok s = (if alloc_ok (length s + 1) then Some s else None)"

subsection \<open>Creating an instance\<close>

text \<open>
  The test \<open>p->ndims > 0 && p->dims\<close>, by which \<open>dlite_instance_create\<close> and
  \<open>dlite_instance_free\<close> tell a slot that holds a pointer to a heap array from a value
  stored in place.
\<close>

definition is_array :: "DLiteProperty \<Rightarrow> bool" where
  "is_array p \<longleftrightarrow> prop_ndims p > 0 \<and> prop_dims p \<noteq> None"

text \<open>The block that \<open>calloc(1, meta->size)\<close> returns, and the instance in it.\<close>

definition zero_instance :: "DLiteMeta \<Rightarrow> DLiteInstance" where
  "zero_instance m =
     \<lparr>inst_uuid = replicate (DLITE_UUID_LENGTH + 1) NUL,
      inst_uri = None,
      inst_meta = None,
      inst_block = replicate (unat (meta_size m)) 0\<rparr>"

text \<open>
  \<open>meta->properties[i]\<close>, \<open>meta->propoffsets[i]\<close> and \<open>dims[k]\<close> of the caller's array
  (\<open>k\<close> an \<open>int\<close>); \<open>None\<close> is a read outside the array.
\<close>

definition property_at :: "DLiteMeta \<Rightarrow> nat \<Rightarrow> DLiteProperty option" where
  "property_at m i =
     (case properties m of
        None \<Rightarrow> None
      | Some ps \<Rightarrow> if i < length ps then Some (ps ! i) else None)"

definition propoffset_at :: "DLiteMeta \<Rightarrow> nat \<Rightarrow> nat option" where
  "propoffset_at m i = (if i < length (propoffsets m) then Some (propoffsets m ! i) else None)"

definition dim_at :: "size_t list \<Rightarrow> int \<Rightarrow> size_t option" where
  "dim_at dims k = (if 0 \<le> k \<and> k < int (length dims) then Some (dims ! nat k) else None)"

text \<open>
  \<open>dims[k]\<close> where \<open>dims\<close> is \<open>(size_t *)((char *)inst + meta->dimoffset)\<close>, the
  dimension sizes inside the block.
\<close>

definition block_dim_at :: "DLiteMeta \<Rightarrow> byte list \<Rightarrow> int \<Rightarrow> size_t option" where
  "block_dim_at m block k =
     (case load_size_t block (int (dimoffset m) + 8 * k) of Ret w \<Rightarrow> Some w | UB \<Rightarrow> None
      | Out_Of_Fuel \<Rightarrow> None)"

text \<open>
  The loop \<open>for (j=0; j<p->ndims; j++) nmemb *= dims[p->dims[j]];\<close> from index \<open>j\<close>,
  over the way \<open>dims[k]\<close> is read; the product is a \<open>size_t\<close> and wraps.
\<close>

function nmemb_loop :: "(int \<Rightarrow> size_t option) \<Rightarrow> int list \<Rightarrow> int \<Rightarrow> nat \<Rightarrow> size_t \<Rightarrow> size_t option" where
  "nmemb_loop dims pdims ndims j nmemb =
     (if int j < ndims then
        (if j < length pdims then
           (case dims (pdims ! j) of
              None \<Rightarrow> None
            | Some d \<Rightarrow> nmemb_loop dims pdims ndims (j + 1) (nmemb * d))
         else None)
      else Some nmemb)"
  by pat_completeness auto
termination
  by (relation "measure (\<lambda>(dims, pdims, ndims, j, nmemb). nat (ndims - int j))") auto

declare nmemb_loop.simps [simp del]

text \<open>
  \<open>dlite_meta_incref\<close>: \<open>if (meta) meta->refcount++;\<close>  Incrementing \<open>INT_MAX\<close> is a signed
  overflow.
\<close>

fun dlite_meta_incref :: "state \<Rightarrow> addr option \<Rightarrow> state result" where
  "dlite_meta_incref st None = Ret st"
| "dlite_meta_incref st (Some a) =
     (case metas st a of
        None \<Rightarrow> UB
      | Some m \<Rightarrow>
          if refcount m \<ge> INT_MAX then UB
          else Ret (st\<lparr>metas := (metas st)(a \<mapsto> m\<lparr>refcount := refcount m + 1\<rparr>)\<rparr>))"

definition dlite_entity_incref :: "state \<Rightarrow> addr option \<Rightarrow> state result" where
  "dlite_entity_incref st entity = dlite_meta_incref st entity"

text \<open>
  \<open>dlite_meta_decref\<close>: the count is decremented (decrementing \<open>INT_MIN\<close> is a signed
  overflow); at zero or below the object's own \<open>meta\<close> is released, and the object is
  cleared and freed.  The recursion along the \<open>meta\<close> pointers has no bound in the
  source; \<open>fuel\<close> bounds it here.
\<close>

fun dlite_meta_decref :: "nat \<Rightarrow> state \<Rightarrow> addr option \<Rightarrow> state result" where
  "dlite_meta_decref fuel st None = Ret st"
| "dlite_meta_decref 0 st (Some a) = Out_Of_Fuel"
| "dlite_meta_decref (Suc fuel) st (Some a) =
     (case metas st a of
        None \<Rightarrow> UB
      | Some m \<Rightarrow>
          if refcount m \<le> INT_MIN then UB
          else
            (let m = m\<lparr>refcount := refcount m - 1\<rparr>;
                 st = st\<lparr>metas := (metas st)(a \<mapsto> m)\<rparr>
             in if refcount m \<le> 0 then
                  (case dlite_meta_decref fuel st (meta_meta m) of
                     Ret st \<Rightarrow>
                       (if metas st a = None then UB
                        else Ret (st\<lparr>metas := (metas st)(a := None)\<rparr>))
                   | r \<Rightarrow> r)
                else Ret st))"

text \<open>
  \<open>ptr[n]\<close> where \<open>ptr\<close> points to the heap array at address \<open>a\<close>: the 8 bytes from
  byte \<open>8 * n\<close> of the array, which has to be allocated still.
\<close>

definition array_elem :: "state \<Rightarrow> addr \<Rightarrow> nat \<Rightarrow> addr option result" where
  "array_elem st a n =
     (case heap st a of
        None \<Rightarrow> UB
      | Some bs \<Rightarrow>
          if 8 * n + 8 \<le> length bs then Ret (ptr_of_bytes (take 8 (drop (8 * n) bs))) else UB)"

text \<open>
  The loop \<open>for (n=0; n<nmemb; n++) free((ptr)[n]);\<close> from index \<open>n\<close>; \<open>ptr st n\<close> reads
  \<open>ptr[n]\<close> in the state \<open>st\<close>.
\<close>

function free_strings ::
  "(state \<Rightarrow> nat \<Rightarrow> addr option result) \<Rightarrow> state \<Rightarrow> size_t \<Rightarrow> nat \<Rightarrow> state result" where
  "free_strings ptr st nmemb n =
     (if n < unat nmemb then
        (case ptr st n of
           Ret q \<Rightarrow>
             (case free st q of
                Ret st \<Rightarrow> free_strings ptr st nmemb (n + 1)
              | r \<Rightarrow> r)
         | UB \<Rightarrow> UB
         | Out_Of_Fuel \<Rightarrow> Out_Of_Fuel)
      else Ret st)"
  by pat_completeness auto
termination
  by (relation "measure (\<lambda>(ptr, st, nmemb, n). unat nmemb - n)") auto

declare free_strings.simps [simp del]

text \<open>
  The body of the loop over the properties in \<open>dlite_instance_free\<close>, for property \<open>p\<close>
  with its slot at byte \<open>off\<close> of the block.  For a \<open>dliteStringPtr\<close> property \<open>ptr\<close> is
  the address of the slot, or the pointer that the slot holds when
  \<open>p->ndims > 0 && p->dims\<close>; \<open>nmemb\<close> is computed from the dimension sizes in the block
  when \<open>p->dims\<close> is not NULL; every \<open>ptr[n]\<close> is freed, then the array.
\<close>

definition free_property :: "state \<Rightarrow> DLiteMeta \<Rightarrow> DLiteInstance \<Rightarrow> DLiteProperty \<Rightarrow> nat \<Rightarrow> state result" where
  "free_property st m inst p off =
     (if prop_type p = dliteStringPtr then
        (case (if is_array p then load_ptr (inst_block inst) (int off) else Ret None) of
           Ret q \<Rightarrow>
             (case (if prop_dims p \<noteq> None
                    then nmemb_loop (block_dim_at m (inst_block inst)) (the (prop_dims p))
                           (prop_ndims p) 0 1
                    else Some 1) of
                None \<Rightarrow> UB
              | Some nmemb \<Rightarrow>
                  (case free_strings
                          (if is_array p
                           then (\<lambda>st n. case q of None \<Rightarrow> UB | Some a \<Rightarrow> array_elem st a n)
                           else (\<lambda>st n. load_ptr (inst_block inst) (int off + 8 * int n)))
                          st nmemb 0 of
                     Ret st \<Rightarrow> if is_array p then free st q else Ret st
                   | r \<Rightarrow> r))
         | UB \<Rightarrow> UB
         | Out_Of_Fuel \<Rightarrow> Out_Of_Fuel)
      else if is_array p then
        (case load_ptr (inst_block inst) (int off) of
           Ret q \<Rightarrow> free st q
         | UB \<Rightarrow> UB
         | Out_Of_Fuel \<Rightarrow> Out_Of_Fuel)
      else Ret st)"

function free_properties :: "state \<Rightarrow> DLiteInstance \<Rightarrow> DLiteMeta \<Rightarrow> nat \<Rightarrow> state result" where
  "free_properties st inst m i =
     (if i < nproperties m then
        (case property_at m i of
           None \<Rightarrow> UB
         | Some p \<Rightarrow>
             if prop_type p = dliteStringPtr \<or> is_array p then
               (case propoffset_at m i of
                  None \<Rightarrow> UB
                | Some off \<Rightarrow>
                    (case free_property st m inst p off of
                       Ret st \<Rightarrow> free_properties st inst m (i + 1)
                     | r \<Rightarrow> r))
             else free_properties st inst m (i + 1))
      else Ret st)"
  by pat_completeness auto
termination
  by (relation "measure (\<lambda>(st, inst, m, i). nproperties m - i)") auto

declare free_properties.simps [simp del]

text \<open>
  \<open>dlite_instance_free\<close>.  The instance block and its uri string are values here, so
  \<open>free(inst)\<close> and \<open>free(inst->uri)\<close> leave the state as it is.
\<close>

definition dlite_instance_free :: "nat \<Rightarrow> state \<Rightarrow> DLiteInstance \<Rightarrow> state result" where
  "dlite_instance_free fuel st inst =
     (case inst_meta inst of
        None \<Rightarrow> UB
      | Some meta \<Rightarrow>
          (case metas st meta of
             None \<Rightarrow> UB
           | Some m \<Rightarrow>
               (case (if properties m \<noteq> None then free_properties st inst m 0 else Ret st) of
                  Ret st \<Rightarrow> dlite_meta_decref fuel st (Some meta)
                | r \<Rightarrow> r)))"

text \<open>
  The loop "Allocate arrays for dimensional properties" of \<open>dlite_instance_create\<close> from
  index \<open>i\<close>; the flag of the result is False when a \<open>calloc\<close> returned NULL
  (\<open>goto fail\<close>).  \<open>meta->propoffsets[i]\<close> is read for every property, the slot is
  written for an array property.
\<close>

function alloc_props ::
  "allocator \<Rightarrow> DLiteMeta \<Rightarrow> size_t list \<Rightarrow> nat \<Rightarrow> state \<Rightarrow> DLiteInstance \<Rightarrow>
   (state \<times> DLiteInstance \<times> bool) result" where
  "alloc_props alloc_ok m dims i st inst =
     (if i < nproperties m then
        (case property_at m i of
           None \<Rightarrow> UB
         | Some p \<Rightarrow>
             (case propoffset_at m i of
                None \<Rightarrow> UB
              | Some off \<Rightarrow>
                  if is_array p then
                    (case nmemb_loop (dim_at dims) (the (prop_dims p)) (prop_ndims p) 0 1 of
                       None \<Rightarrow> UB
                     | Some nmemb \<Rightarrow>
                         (case calloc alloc_ok st nmemb (prop_size p) of
                            (st, None) \<Rightarrow> Ret (st, inst, False)
                          | (st, Some a) \<Rightarrow>
                              (case store_ptr (inst_block inst) (int off) (Some a) of
                                 Ret block \<Rightarrow>
                                   alloc_props alloc_ok m dims (i + 1) st
                                     (inst\<lparr>inst_block := block\<rparr>)
                               | UB \<Rightarrow> UB
                               | Out_Of_Fuel \<Rightarrow> Out_Of_Fuel)))
                  else alloc_props alloc_ok m dims (i + 1) st inst))
      else Ret (st, inst, True))"
  by pat_completeness auto
termination
  by (relation "measure (\<lambda>(alloc_ok, m, dims, i, st, inst). nproperties m - i)") auto

declare alloc_props.simps [simp del]

text \<open>The label \<open>fail\<close>: \<open>if (inst) dlite_instance_free(inst); return NULL;\<close>\<close>

definition create_fail :: "nat \<Rightarrow> state \<Rightarrow> DLiteInstance \<Rightarrow> (state \<times> DLiteInstance option) result" where
  "create_fail fuel st inst =
     (case dlite_instance_free fuel st inst of
        Ret st \<Rightarrow> Ret (st, None)
      | UB \<Rightarrow> UB
      | Out_Of_Fuel \<Rightarrow> Out_Of_Fuel)"

text \<open>
  "Initialise header": the uuid is copied, \<open>inst->uri = strdup(id)\<close> for a version 5
  uuid (the result of \<open>strdup\<close> is not checked), and the meta pointer is set.
\<close>

definition init_header ::
  "allocator \<Rightarrow> DLiteInstance \<Rightarrow> int \<Rightarrow> char list \<Rightarrow> string option \<Rightarrow> addr \<Rightarrow> DLiteInstance" where
  "init_header alloc_ok inst uuid_version uuid id' meta =
     (let inst = inst\<lparr>inst_uuid := take (DLITE_UUID_LENGTH + 1) uuid\<rparr>;
          inst = (if uuid_version = 5
                  then inst\<lparr>inst_uri := (case id' of None \<Rightarrow> None | Some s \<Rightarrow> strdup alloc_ok s)\<rparr>
                  else inst)
      in inst\<lparr>inst_meta := Some meta\<rparr>)"

text \<open>
  "Set dimensions": \<open>memcpy(dimensions, dims, meta->ndimensions*sizeof(size_t))\<close> with
  \<open>dimensions\<close> at byte \<open>dimoffset\<close> of the block, when \<open>ndimensions\<close> is not 0.
\<close>

definition set_dimensions :: "DLiteMeta \<Rightarrow> size_t list \<Rightarrow> DLiteInstance \<Rightarrow> DLiteInstance result" where
  "set_dimensions m dims inst =
     (if ndimensions m = 0 then Ret inst
      else if length dims < ndimensions m then UB
      else if \<not> in_block (inst_block inst) (int (dimoffset m)) (8 * ndimensions m) then UB
      else Ret (inst\<lparr>inst_block :=
                  store_bytes (inst_block inst) (dimoffset m)
                    (concat (map bytes_of_size_t (take (ndimensions m) dims)))\<rparr>))"

text \<open>
  \<open>dlite_instance_create(meta, dims, id)\<close>.  \<open>uuid\<close> is the local array
  \<open>char uuid[DLITE_UUID_LENGTH+1]\<close> as it is on entry; \<open>dims\<close> is the caller's array,
  with as many entries as the list has.  The result is the new state and the instance
  (\<open>None\<close> is NULL).
\<close>

definition dlite_instance_create ::
  "'u uuid_lib \<Rightarrow> allocator \<Rightarrow> nat \<Rightarrow> char list \<Rightarrow> state \<Rightarrow> addr \<Rightarrow> size_t list \<Rightarrow> string option \<Rightarrow>
   (state \<times> DLiteInstance option) result" where
  "dlite_instance_create lib alloc_ok fuel uuid st meta dims id' =
     (case metas st meta of
        None \<Rightarrow> UB
      | Some m \<Rightarrow>
          if \<not> alloc_ok (unat (meta_size m)) then Ret (st, None)
          else
            (case dlite_get_uuid lib uuid id' of
               (uuid_version, uuid) \<Rightarrow>
                 if uuid_version < 0 then create_fail fuel st (zero_instance m)
                 else
                   (case set_dimensions m dims
                           (init_header alloc_ok (zero_instance m) uuid_version uuid id' meta) of
                      Ret inst \<Rightarrow>
                        (case alloc_props alloc_ok m dims 0 st inst of
                           Ret (st, inst, ok) \<Rightarrow>
                             if \<not> ok then create_fail fuel st inst
                             else
                               (case dlite_entity_incref st (Some meta) of
                                  Ret st \<Rightarrow> Ret (st, Some inst)
                                | UB \<Rightarrow> UB
                                | Out_Of_Fuel \<Rightarrow> Out_Of_Fuel)
                         | UB \<Rightarrow> UB
                         | Out_Of_Fuel \<Rightarrow> Out_Of_Fuel)
                    | UB \<Rightarrow> UB
                    | Out_Of_Fuel \<Rightarrow> Out_Of_Fuel)))"

subsection \<open>Dimension accessors\<close>

text \<open>The conversion of a \<open>size_t\<close> to the \<open>int\<close> that the accessors return.\<close>

definition int_of_size_t :: "size_t \<Rightarrow> int" where
  "int_of_size_t w = sint (ucast w :: 32 word)"

text \<open>
  \<open>dlite_meta_get_dimension_index\<close>: the loop over \<open>meta->dimensions + i\<close> from index
  \<open>i\<close>, then \<open>err(-1, ...)\<close>.
\<close>

function dimension_index_loop :: "DLiteMeta \<Rightarrow> string \<Rightarrow> nat \<Rightarrow> int result" where
  "dimension_index_loop meta name i =
     (if i < ndimensions meta then
        (case dimensions meta of
           None \<Rightarrow> UB
         | Some ds \<Rightarrow>
             if i < length ds then
               (if name = dim_name (ds ! i) then Ret (int i)
                else dimension_index_loop meta name (i + 1))
             else UB)
      else Ret (err (- 1) ''has no such dimension''))"
  by pat_completeness auto
termination
  by (relation "measure (\<lambda>(meta, name, i). ndimensions meta - i)") auto

declare dimension_index_loop.simps [simp del]

definition dlite_meta_get_dimension_index :: "DLiteMeta \<Rightarrow> string \<Rightarrow> int result" where
  "dlite_meta_get_dimension_index meta name = dimension_index_loop meta name 0"

text \<open>
  \<open>dimensions[i]\<close> with \<open>dimensions\<close> at byte \<open>dimoffset\<close> of the block, as the \<open>int\<close>
  that is returned.
\<close>

definition dimension_slot :: "DLiteMeta \<Rightarrow> DLiteInstance \<Rightarrow> nat \<Rightarrow> int result" where
  "dimension_slot meta inst i =
     (case load_size_t (inst_block inst) (int (dimoffset meta) + 8 * int i) of
        Ret w \<Rightarrow> Ret (int_of_size_t w)
      | UB \<Rightarrow> UB
      | Out_Of_Fuel \<Rightarrow> Out_Of_Fuel)"

text \<open>
  \<open>dlite_instance_get_dimension_size_by_index\<close> and \<open>dlite_instance_get_dimension_size\<close>;
  both compare the index with \<open>nproperties\<close>, as the source does.
\<close>

definition dlite_instance_get_dimension_size_by_index :: "state \<Rightarrow> DLiteInstance \<Rightarrow> nat \<Rightarrow> int result" where
  "dlite_instance_get_dimension_size_by_index st inst i =
     (case inst_meta inst of
        None \<Rightarrow> UB
      | Some a \<Rightarrow>
          (case metas st a of
             None \<Rightarrow> UB
           | Some meta \<Rightarrow>
               if i \<ge> nproperties meta then Ret (errx (- 1) ''no property with index'')
               else dimension_slot meta inst i))"

definition dlite_instance_get_dimension_size :: "state \<Rightarrow> DLiteInstance \<Rightarrow> string \<Rightarrow> int result" where
  "dlite_instance_get_dimension_size st inst name =
     (case inst_meta inst of
        None \<Rightarrow> UB
      | Some a \<Rightarrow>
          (case metas st a of
             None \<Rightarrow> UB
           | Some meta \<Rightarrow>
               (case dlite_meta_get_dimension_index meta name of
                  Ret i \<Rightarrow>
                    if i < 0 then Ret (- 1)
                    else if i \<ge> int (nproperties meta) then Ret (errx (- 1) ''no property with index'')
                    else dimension_slot meta inst (nat i)
                | UB \<Rightarrow> UB
                | Out_Of_Fuel \<Rightarrow> Out_Of_Fuel)))"

subsection \<open>An example entity\<close>

text \<open>
  An entity with the dimensions \<open>N\<close> and \<open>M\<close> and one property, a float array of rank 2
  over them.  An instance has the dimension sizes at bytes 56 and 64 and the pointer to
  the array at byte 72.  \<open>example_state\<close> holds the entity at address 1;
  \<open>example_instance\<close> and \<open>example_state_created\<close> are the instance with \<open>dims = {3, 2}\<close>
  and \<open>id = "myinst"\<close> and the state after its creation.
\<close>

definition example_meta :: DLiteMeta where
  "example_meta =
     \<lparr>meta_uuid = ''8cbd0f86-4b4e-5e10-a0ba-c3bcb2f0f7b8'',
      meta_uri = Some ''http://example.org/0.1/Grid'',
      meta_meta = None,
      meta_description = None,
      meta_size = 80,
      dimoffset = 56,
      propoffsets = [72],
      refcount = 1,
      dimensions = Some [\<lparr>dim_name = ''N'', dim_description = None\<rparr>,
                         \<lparr>dim_name = ''M'', dim_description = None\<rparr>],
      properties = Some [\<lparr>prop_name = ''values'', prop_type = dliteFloat, prop_size = 8,
                          prop_ndims = 2, prop_dims = Some [0, 1],
                          prop_description = None, prop_unit = None\<rparr>],
      ndimensions = 2,
      nproperties = 1\<rparr>"

definition example_state :: state where
  "example_state = \<lparr>metas = [1 \<mapsto> example_meta], heap = Map.empty, next_addr = 1\<rparr>"

text \<open>
  The block of an instance of the example entity with the dimension sizes \<open>d0\<close> and
  \<open>d1\<close> and the array at address \<open>a\<close>.
\<close>

definition example_block :: "size_t \<Rightarrow> size_t \<Rightarrow> addr \<Rightarrow> byte list" where
  "example_block d0 d1 a =
     replicate 56 0 @ bytes_of_size_t d0 @ bytes_of_size_t d1 @ bytes_of_size_t (of_nat a)"

definition example_instance :: DLiteInstance where
  "example_instance =
     \<lparr>inst_uuid = ''myinst6ba7b810-9dad-11d1-80b4-00c04f'' @ [NUL],
      inst_uri = Some ''myinst'',
      inst_meta = Some 1,
      inst_block = example_block 3 2 2\<rparr>"

definition example_state_created :: state where
  "example_state_created =
     \<lparr>metas = [1 \<mapsto> example_meta\<lparr>refcount := 2\<rparr>],
      heap = [2 \<mapsto> replicate 48 0],
      next_addr = 2\<rparr>"

subsection \<open>Well-formed layouts\<close>




subsection \<open>What an instance owns\<close>









section \<open>Collections (dlite-collection.c)\<close>

subsection \<open>The triple store\<close>

text \<open>
  Modelled from the spec: the triple store (\<open>triplestore.h\<close>) is not part of the sources.
  The spec lists what a collection requires of it: "\<open>create\<close>, \<open>free\<close>, \<open>add(s,p,o)\<close>,
  \<open>remove(s,p,o) \<rightarrow> count\<close>, \<open>remove_by_id\<close>, \<open>find_first(s,p,o)\<close>, \<open>init_state\<close>,
  \<open>find(state, s,p,o)\<close> (iterator where any of \<open>s,p,o\<close> may be a wildcard)".
  The store is the sequence of its triples.  A triple carries an id besides its subject,
  predicate and object, as the comment in \<open>dlite_collection_create\<close> says of
  \<open>XTriplet\<close>; how the store forms the id is not specified and is the parameter
  \<open>mkid\<close>.  A NULL component of a pattern is a wildcard (\<open>None\<close>).  The iteration state
  is the position at which the next search starts.
\<close>

record XTriplet =
  t_s :: string
  t_p :: string
  t_o :: string
  t_id :: string

record TripleStore =
  triplets :: "XTriplet list"

type_synonym TripleState = nat


definition triplestore_create :: TripleStore where
  "triplestore_create = \<lparr>triplets = []\<rparr>"

definition matches :: "string option \<Rightarrow> string option \<Rightarrow> string option \<Rightarrow> XTriplet \<Rightarrow> bool" where
  "matches s p ob t \<longleftrightarrow>
     (s = None \<or> s = Some (t_s t)) \<and> (p = None \<or> p = Some (t_p t)) \<and> (ob = None \<or> ob = Some (t_o t))"


definition triplestore_remove ::
  "TripleStore \<Rightarrow> string option \<Rightarrow> string option \<Rightarrow> string option \<Rightarrow> int \<times> TripleStore" where
  "triplestore_remove ts s p ob =
     (int (length (filter (matches s p ob) (triplets ts))),
      ts\<lparr>triplets := filter (\<lambda>t. \<not> matches s p ob t) (triplets ts)\<rparr>)"

definition triplestore_remove_by_id :: "TripleStore \<Rightarrow> string \<Rightarrow> TripleStore" where
  "triplestore_remove_by_id ts i = ts\<lparr>triplets := filter (\<lambda>t. t_id t \<noteq> i) (triplets ts)\<rparr>"

definition triplestore_init_state :: "TripleStore \<Rightarrow> TripleState" where
  "triplestore_init_state ts = 0"

function find_from :: "(XTriplet \<Rightarrow> bool) \<Rightarrow> XTriplet list \<Rightarrow> nat \<Rightarrow> nat option" where
  "find_from P ts i =
     (if i < length ts then (if P (ts ! i) then Some i else find_from P ts (i + 1)) else None)"
  by pat_completeness auto
termination
  by (relation "measure (\<lambda>(P, ts, i). length ts - i)") auto

declare find_from.simps [simp del]

definition triplestore_find ::
  "TripleStore \<Rightarrow> TripleState \<Rightarrow> string option \<Rightarrow> string option \<Rightarrow> string option \<Rightarrow>
   XTriplet option \<times> TripleState" where
  "triplestore_find ts state s p ob =
     (case find_from (matches s p ob) (triplets ts) state of
        None \<Rightarrow> (None, max state (length (triplets ts)))
      | Some k \<Rightarrow> (Some (triplets ts ! k), k + 1))"

definition triplestore_find_first ::
  "TripleStore \<Rightarrow> string option \<Rightarrow> string option \<Rightarrow> string option \<Rightarrow> XTriplet option" where
  "triplestore_find_first ts s p ob = fst (triplestore_find ts 0 s p ob)"

lemma find_from_Some: "find_from P ts i = Some k \<Longrightarrow> i \<le> k \<and> k < length ts \<and> P (ts ! k)"
proof (induction P ts i rule: find_from.induct)
  case (1 P ts i)
  then show ?case
    by (subst (asm) (2) find_from.simps) (auto split: if_splits)
qed

lemma find_from_shrinks:
  "find_from P ts i = Some k \<Longrightarrow> length (filter Q ts) - Suc k < length ts - i"
proof -
  assume "find_from P ts i = Some k"
  then have "i \<le> k" "k < length ts" using find_from_Some by blast+
  moreover have "length (filter Q ts) \<le> length ts" by simp
  ultimately show ?thesis by arith
qed

subsection \<open>The collection\<close>

text \<open>
  Of \<open>DLiteCollection\<close> the header members and the store are kept.  The member
  \<open>triplets\<close>, which the source resets to \<open>coll->store->triplets\<close> after every change,
  is read through the store.
\<close>

record DLiteCollection =
  coll_uuid :: "char list"
  coll_uri :: "string option"
  coll_meta :: "addr option"
  store :: TripleStore


definition dlite_collection_remove_relations ::
  "DLiteCollection \<Rightarrow> string option \<Rightarrow> string option \<Rightarrow> string option \<Rightarrow> int \<times> DLiteCollection" where
  "dlite_collection_remove_relations coll s p ob =
     (let (retval, ts) = triplestore_remove (store coll) s p ob
      in (retval, coll\<lparr>store := ts\<rparr>))"

definition dlite_collection_init_state :: "DLiteCollection \<Rightarrow> TripleState" where
  "dlite_collection_init_state coll = triplestore_init_state (store coll)"

definition dlite_collection_find ::
  "DLiteCollection \<Rightarrow> TripleState option \<Rightarrow> string option \<Rightarrow> string option \<Rightarrow> string option \<Rightarrow>
   XTriplet option \<times> TripleState option" where
  "dlite_collection_find coll state s p ob =
     (case state of
        Some st \<Rightarrow> (let (t, st) = triplestore_find (store coll) st s p ob in (t, Some st))
      | None \<Rightarrow> (triplestore_find_first (store coll) s p ob, None))"


text \<open>
  The loop
  \<open>while ((t=dlite_collection_find(coll,&state, label, "_has-dimmap", NULL)))
     triplestore_remove_by_id(coll->store, t->o);\<close>
  on the store of the collection; with a state, \<open>dlite_collection_find\<close> is
  \<open>triplestore_find\<close> on the store.
\<close>

function remove_dimmaps :: "TripleStore \<Rightarrow> TripleState \<Rightarrow> string \<Rightarrow> TripleStore" where
  "remove_dimmaps ts state label =
     (case triplestore_find ts state (Some label) (Some ''_has-dimmap'') None of
        (None, state') \<Rightarrow> ts
      | (Some t, state') \<Rightarrow> remove_dimmaps (triplestore_remove_by_id ts (t_o t)) state' label)"
  by pat_completeness auto
termination
  apply (relation "measure (\<lambda>(ts, state, label). length (triplets ts) - state)")
   apply simp
  apply (auto simp: triplestore_find_def triplestore_remove_by_id_def find_from_shrinks
      split: option.splits)
  done

declare remove_dimmaps.simps [simp del]

definition dlite_collection_remove :: "DLiteCollection \<Rightarrow> string \<Rightarrow> int \<times> DLiteCollection" where
  "dlite_collection_remove coll label =
     (let (n, coll) = dlite_collection_remove_relations coll (Some label) (Some ''_is-a'') (Some ''Instance'')
      in if n > 0 then
           (let state = dlite_collection_init_state coll;
                coll = coll\<lparr>store := remove_dimmaps (store coll) state label\<rparr>;
                (r, coll) = dlite_collection_remove_relations coll (Some label) (Some ''_has-uuid'') None;
                (r, coll) = dlite_collection_remove_relations coll (Some label) (Some ''_has-meta'') None;
                (r, coll) = dlite_collection_remove_relations coll (Some label) (Some ''_has-dimmap'') None
            in (0, coll))
         else (1, coll))"


text \<open>The triples of a collection, without their ids.\<close>

definition triple_of :: "XTriplet \<Rightarrow> string \<times> string \<times> string" where
  "triple_of t = (t_s t, t_p t, t_o t)"

definition triples :: "DLiteCollection \<Rightarrow> (string \<times> string \<times> string) list" where
  "triples coll = map triple_of (triplets (store coll))"

text \<open>A collection and a second instance to run the functions on.\<close>

definition example_collection :: DLiteCollection where
  "example_collection =
     \<lparr>coll_uuid = ''6fa459ea-ee8a-4ca4-894e-db77e160355e'' @ [NUL],
      coll_uri = None, coll_meta = None, store = triplestore_create\<rparr>"



definition collection_a :: DLiteCollection where
  "collection_a =
     example_collection
       \<lparr>store := \<lparr>triplets =
          [\<lparr>t_s = ''a'', t_p = ''_is-a'', t_o = ''Instance'', t_id = ''a|_is-a|Instance''\<rparr>,
           \<lparr>t_s = ''a'', t_p = ''_has-uuid'', t_o = ''myinst6ba7b810-9dad-11d1-80b4-00c04f'',
             t_id = ''a|_has-uuid|myinst6ba7b810-9dad-11d1-80b4-00c04f''\<rparr>,
           \<lparr>t_s = ''a'', t_p = ''_has-meta'', t_o = ''http://example.org/0.1/Grid'',
             t_id = ''a|_has-meta|http://example.org/0.1/Grid''\<rparr>]\<rparr>\<rparr>"



section \<open>Properties of the metadata url helpers\<close>

lemma strrchr_none: "strrchr s c = None \<longleftrightarrow> c \<notin> set s"
  by (induction s) (auto split: option.splits)

lemma strrchr_append_hit:
  "c \<notin> set zs \<Longrightarrow> strrchr (ys @ c # zs) c = Some (length ys)"
proof (induction ys)
  case Nil
  then show ?case by (simp add: strrchr_none [THEN iffD2])
next
  case (Cons y ys)
  then show ?case by simp
qed



lemma char_at_mid: "char_at (xs @ c # ys) (int (length xs)) = Some c"
  by (simp add: char_at_def nth_append)

lemma scan_back_hit:
  "CHR ''/'' \<notin> set ys \<Longrightarrow> xs \<noteq> [] \<Longrightarrow>
   scan_back (xs @ CHR ''/'' # ys @ zs) (int (length xs + length ys)) = Some (int (length xs))"
proof (induction ys arbitrary: zs rule: rev_induct)
  case Nil
  then show ?case
    using char_at_mid [of xs "CHR ''/''" zs] by (simp add: scan_back.simps)
next
  case (snoc y ys)
  have c: "char_at (xs @ CHR ''/'' # (ys @ [y]) @ zs) (int (length xs + length (ys @ [y]))) = Some y"
    using char_at_mid [of "xs @ CHR ''/'' # ys" y zs] by (simp add: add.commute)
  have y: "y \<noteq> CHR ''/''" using snoc.prems by auto
  have ih: "scan_back (xs @ CHR ''/'' # ys @ (y # zs)) (int (length xs + length ys)) = Some (int (length xs))"
    using snoc.IH [of "y # zs"] snoc.prems by simp
  show ?case
    apply (subst scan_back.simps)
    using c y ih snoc.prems(2) by (simp add: algebra_simps)
qed

text \<open>
  The round trip: for a name and a version without \<open>/\<close> and a non-empty namespace,
  splitting the joined url gives the three parts back (when the allocations succeed).
\<close>

lemma split_join_roundtrip:
  assumes n: "CHR ''/'' \<notin> set n" and v: "CHR ''/'' \<notin> set v" and ns: "ns \<noteq> []"
    and a: "\<forall>k. alloc_ok k"
  shows "\<exists>u. dlite_join_metadata alloc_ok n v ns = Some u \<and>
     dlite_split_metadata alloc_ok u True True True = Split (Some n) (Some v) (Some ns)"
proof -
  let ?u = "ns @ ''/'' @ v @ ''/'' @ n"
  have j: "dlite_join_metadata alloc_ok n v ns = Some ?u"
    using a by (simp add: dlite_join_metadata_def Let_def)
  have p: "strrchr ?u CHR ''/'' = Some (length ns + 1 + length v)"
    using strrchr_append_hit [of "CHR ''/''" n "ns @ ''/'' @ v"] n by simp
  have q: "scan_back ?u (int (length ns + 1 + length v) - 1) = Some (int (length ns))"
    using scan_back_hit [of v ns "CHR ''/'' # n"] v ns by simp
  show ?thesis
    using j p q a ns by (simp add: dlite_split_metadata_def)
qed

text \<open>A url without any \<open>/\<close> is rejected.\<close>

lemma split_no_separator:
  "CHR ''/'' \<notin> set u \<Longrightarrow> dlite_split_metadata alloc_ok u wn wv wns = Split_Fail"
  by (simp add: dlite_split_metadata_def strrchr_none [THEN iffD2])

text \<open>
  C5.  The claim: splitting a joined url gives name, version and namespace back, and
  \<open>dlite_split_metadata\<close> returns non-zero on every url with fewer than two \<open>/\<close>.
  The round trip holds (\<open>split_join_roundtrip\<close>).  The failure does not: on the url
  \<open>/abc\<close>, whose only \<open>/\<close> is its first character, \<open>q = p - 1\<close> points one byte before
  the string, \<open>*q\<close> is read there, and the function does not return 1.
\<close>

theorem dlite_split_metadata_leading_slash:
  "dlite_split_metadata (\<lambda>n. True) ''/abc'' True True True = Split_Out_Of_Bounds \<and>
   split_retval (dlite_split_metadata (\<lambda>n. True) ''/abc'' True True True) \<noteq> Some 1"
  by (simp add: dlite_split_metadata_def scan_back.simps char_at_def)


section \<open>Properties of getuuid\<close>

lemma lower_loop_from:
  "i \<le> UUID_LEN \<Longrightarrow> UUID_LEN \<le> length buff \<Longrightarrow>
   lower_loop i buff = take i buff @ map tolower (take (UUID_LEN - i) (drop i buff)) @ drop UUID_LEN buff"
proof (induction i buff rule: lower_loop.induct)
  case (1 i buff)
  show ?case
  proof (cases "i < UUID_LEN")
    case False
    with 1 show ?thesis by (simp add: lower_loop.simps)
  next
    case True
    let ?b = "buff[i := tolower (buff ! i)]"
    have ih: "lower_loop (i + 1) ?b =
        take (i + 1) ?b @ map tolower (take (UUID_LEN - (i + 1)) (drop (i + 1) ?b)) @ drop UUID_LEN ?b"
      using 1 True by simp
    have il: "i < length buff" using True 1 by simp
    have a: "take (i + 1) ?b = take i buff @ [tolower (buff ! i)]"
      using il by (simp add: take_Suc_conv_app_nth)
    have b: "drop (i + 1) ?b = drop (i + 1) buff" by simp
    have c: "drop UUID_LEN ?b = drop UUID_LEN buff" using True by simp
    have d: "take (UUID_LEN - i) (drop i buff) = buff ! i # take (UUID_LEN - (i + 1)) (drop (i + 1) buff)"
    proof -
      have "drop i buff = buff ! i # drop (Suc i) buff" using il by (simp add: Cons_nth_drop_Suc)
      moreover have "UUID_LEN - i = Suc (UUID_LEN - (i + 1))" using True by simp
      ultimately show ?thesis by simp
    qed
    show ?thesis
      apply (subst lower_loop.simps)
      using True ih a b c d by simp
  qed
qed

lemma lower_loop_0: "UUID_LEN \<le> length buff \<Longrightarrow> lower_loop 0 buff = lower36 buff"
  using lower_loop_from [of 0 buff] by (simp add: lower36_def)

lemma tolower_NUL: "tolower c = NUL \<longleftrightarrow> c = NUL"
proof
  assume h: "tolower c = NUL"
  show "c = NUL"
  proof (cases "65 \<le> (of_char c :: nat) \<and> (of_char c :: nat) \<le> 90")
    case False
    with h show ?thesis by (simp add: tolower_def)
  next
    case True
    then have "char_of ((of_char c :: nat) + 32) = NUL" using h by (simp add: tolower_def)
    then have "(of_char (char_of ((of_char c :: nat) + 32)) :: nat) = of_char NUL" by simp
    then have "((of_char c :: nat) + 32) mod 256 = 0" by (simp add: NUL_def)
    with True show ?thesis by presburger
  qed
next
  assume "c = NUL"
  then show "tolower c = NUL" by (simp add: tolower_def NUL_def)
qed

lemma c_string_lowered:
  "NUL \<notin> set t \<Longrightarrow> c_string (map tolower t @ NUL # rest) = map tolower t"
  unfolding c_string_def
  by (induction t) (auto simp: tolower_NUL)

lemma xdigit_not_NUL: "is_xdigit c \<Longrightarrow> c \<noteq> NUL"
  by (auto simp: is_xdigit_def NUL_def Let_def)

lemma valid_uuid_string_no_NUL:
  assumes "valid_uuid_string s" shows "NUL \<notin> set s"
proof
  assume "NUL \<in> set s"
  then obtain i where i: "i < length s" "s ! i = NUL" by (auto simp: in_set_conv_nth)
  have len: "length s = 36" using assms by (simp add: valid_uuid_string_def)
  have "\<forall>j\<in>set [0..<36]. if j = 8 \<or> j = 13 \<or> j = 18 \<or> j = 23
                     then s ! j = CHR ''-'' else is_xdigit (s ! j)"
    using assms unfolding valid_uuid_string_def list_all_iff by blast
  then have "if i = 8 \<or> i = 13 \<or> i = 18 \<or> i = 23
                     then s ! i = CHR ''-'' else is_xdigit (s ! i)"
    using i(1) len by simp
  then show False using i(2) xdigit_not_NUL [of "s ! i"] by (auto simp: NUL_def split: if_splits)
qed

lemma getuuid_empty:
  "id' = None \<or> id' = Some [] \<Longrightarrow> UUID_LEN \<le> length (snd (uuid4_generate lib buff)) \<Longrightarrow>
   getuuid lib buff id' =
     (if fst (uuid4_generate lib buff) = 0 then 4 else - 1, lower36 (snd (uuid4_generate lib buff)))"
  by (auto simp: getuuid_def getuuidn_def Let_def lower_loop_0 split: prod.splits)

lemma getuuid_valid:
  assumes v: "valid_uuid_string U" and b: "UUID_LEN < length buff"
  shows "getuuid lib buff (Some U) = (0, map tolower U @ NUL # drop (UUID_LEN + 1) buff)"
proof -
  have len: "length U = 36" using v by (simp add: valid_uuid_string_def)
  have ne: "U \<noteq> []" using len by auto
  have f: "uuid_from_string U (length U) = 0" using v by (simp add: uuid_from_string_def)
  have c: "(strncpy buff U UUID_LEN)[UUID_LEN := NUL] = U @ NUL # drop (UUID_LEN + 1) buff"
  proof -
    have "strncpy buff U UUID_LEN = U @ drop UUID_LEN buff"
      using len by (simp add: strncpy_def UUID_LEN_def)
    moreover have "drop UUID_LEN buff = buff ! UUID_LEN # drop (UUID_LEN + 1) buff"
      using b by (simp add: Cons_nth_drop_Suc)
    ultimately show ?thesis using len by (simp add: UUID_LEN_def list_update_append)
  qed
  have l: "lower_loop 0 (U @ NUL # drop (UUID_LEN + 1) buff) = map tolower U @ NUL # drop (UUID_LEN + 1) buff"
    using len by (subst lower_loop_0) (simp_all add: lower36_def UUID_LEN_def)
  show ?thesis
    using ne f len c l by (simp add: getuuid_def getuuidn_def)
qed

lemma getuuid_name:
  assumes "s \<noteq> []" and "\<not> valid_uuid_string s"
    and "length (uuid_as_string lib (uuid_create_sha1_from_name lib (NameSpace_DNS lib) s (length s))) = UUID_LEN"
  shows "getuuid lib buff (Some s) =
    (5, map tolower (uuid_as_string lib (uuid_create_sha1_from_name lib (NameSpace_DNS lib) s (length s)))
        @ NUL # drop (UUID_LEN + 1) buff)"
proof -
  let ?t = "uuid_as_string lib (uuid_create_sha1_from_name lib (NameSpace_DNS lib) s (length s))"
  have f: "uuid_from_string s (length s) \<noteq> 0" using assms(2) by (simp add: uuid_from_string_def)
  have l: "lower_loop 0 (write_string buff ?t) = map tolower ?t @ NUL # drop (UUID_LEN + 1) buff"
    using assms(3) by (subst lower_loop_0) (simp_all add: lower36_def write_string_def)
  show ?thesis using assms(1) f l by (simp add: getuuid_def getuuidn_def)
qed

text \<open>
  C1.  For every call \<open>get_uuid(buff, id)\<close> on a buffer of at least 37 bytes:
  \<^item> if \<open>id\<close> is NULL or empty, the buffer is what \<open>uuid4_generate\<close> wrote, in lower case,
    and 4 is returned (-1 when the generator reports a failure);
  \<^item> if \<open>id\<close> is a valid 36-character UUID string \<open>U\<close>, 0 is returned and the buffer
    holds \<open>lower(U)\<close>;
  \<^item> otherwise 5 is returned and the buffer holds, in lower case, the text of the SHA-1
    UUID of \<open>id\<close> under the DNS namespace; these 37 bytes depend on \<open>id\<close> alone, so two
    calls with the same \<open>id\<close> write the same string whatever the buffers held before.
\<close>

theorem getuuid_versions:
  assumes buff: "UUID_LEN < length buff" and buff2: "UUID_LEN < length buff2"
    and gen: "length (snd (uuid4_generate lib buff)) = length buff"
    and tlen: "length (uuid_as_string lib
                (uuid_create_sha1_from_name lib (NameSpace_DNS lib) s (length s))) = UUID_LEN"
    and U: "valid_uuid_string U"
    and s: "s \<noteq> []" "\<not> valid_uuid_string s"
  shows "dlite_get_uuid lib buff None =
           (if fst (uuid4_generate lib buff) = 0 then 4 else - 1,
            lower36 (snd (uuid4_generate lib buff))) \<and>
         dlite_get_uuid lib buff (Some []) = dlite_get_uuid lib buff None \<and>
         fst (dlite_get_uuid lib buff (Some U)) = 0 \<and>
         c_string (snd (dlite_get_uuid lib buff (Some U))) = map tolower U \<and>
         fst (dlite_get_uuid lib buff (Some s)) = 5 \<and>
         take (UUID_LEN + 1) (snd (dlite_get_uuid lib buff (Some s))) =
           map tolower (uuid_as_string lib
             (uuid_create_sha1_from_name lib (NameSpace_DNS lib) s (length s))) @ [NUL] \<and>
         take (UUID_LEN + 1) (snd (dlite_get_uuid lib buff2 (Some s))) =
           take (UUID_LEN + 1) (snd (dlite_get_uuid lib buff (Some s)))"
proof -
  let ?t = "uuid_as_string lib (uuid_create_sha1_from_name lib (NameSpace_DNS lib) s (length s))"
  have g: "UUID_LEN \<le> length (snd (uuid4_generate lib buff))" using buff gen by simp
  have c1: "dlite_get_uuid lib buff None =
           (if fst (uuid4_generate lib buff) = 0 then 4 else - 1,
            lower36 (snd (uuid4_generate lib buff)))"
    using getuuid_empty [of None lib buff] g by (simp add: dlite_get_uuid_def)
  have c2: "dlite_get_uuid lib buff (Some []) = dlite_get_uuid lib buff None"
    using getuuid_empty [of None lib buff] getuuid_empty [of "Some []" lib buff] g
    by (simp add: dlite_get_uuid_def)
  have v: "dlite_get_uuid lib buff (Some U) = (0, map tolower U @ NUL # drop (UUID_LEN + 1) buff)"
    using getuuid_valid [OF U buff] by (simp add: dlite_get_uuid_def)
  have c3: "fst (dlite_get_uuid lib buff (Some U)) = 0" using v by simp
  have c4: "c_string (snd (dlite_get_uuid lib buff (Some U))) = map tolower U"
    using v c_string_lowered [OF valid_uuid_string_no_NUL [OF U]] by simp
  have n: "dlite_get_uuid lib b (Some s) = (5, map tolower ?t @ NUL # drop (UUID_LEN + 1) b)" for b
    using getuuid_name [OF s tlen] by (simp add: dlite_get_uuid_def)
  have c5: "fst (dlite_get_uuid lib buff (Some s)) = 5" using n by simp
  have c6: "take (UUID_LEN + 1) (snd (dlite_get_uuid lib buff (Some s))) = map tolower ?t @ [NUL]"
    using n tlen by simp
  have c7: "take (UUID_LEN + 1) (snd (dlite_get_uuid lib buff2 (Some s))) =
        take (UUID_LEN + 1) (snd (dlite_get_uuid lib buff (Some s)))"
    using n tlen by simp
  show ?thesis using c1 c2 c3 c4 c5 c6 c7 by blast
qed

theorem getuuid_versions_witness:
  "UUID_LEN < length (replicate 37 NUL) \<and>
   valid_uuid_string ''F47AC10B-58CC-4372-A567-0E02B2C3D479'' \<and>
   ''myinst'' \<noteq> [] \<and> \<not> valid_uuid_string ''myinst'' \<and>
   fst (dlite_get_uuid example_uuid_lib (replicate 37 NUL) None) = 4 \<and>
   fst (dlite_get_uuid example_uuid_lib (replicate 37 NUL)
          (Some ''F47AC10B-58CC-4372-A567-0E02B2C3D479'')) = 0 \<and>
   c_string (snd (dlite_get_uuid example_uuid_lib (replicate 37 NUL)
          (Some ''F47AC10B-58CC-4372-A567-0E02B2C3D479''))) =
     ''f47ac10b-58cc-4372-a567-0e02b2c3d479'' \<and>
   fst (dlite_get_uuid example_uuid_lib (replicate 37 NUL) (Some ''myinst'')) = 5"
proof -
  have h1: "UUID_LEN < length (replicate 37 NUL)" by (simp add: UUID_LEN_def)
  have h2: "length (snd (uuid4_generate example_uuid_lib (replicate 37 NUL))) = length (replicate 37 NUL)"
    by (simp add: example_uuid_lib_def write_string_def)
  have h3: "length (uuid_as_string example_uuid_lib
                (uuid_create_sha1_from_name example_uuid_lib (NameSpace_DNS example_uuid_lib)
                   ''myinst'' (length ''myinst''))) = UUID_LEN"
    by (simp add: example_uuid_lib_def UUID_LEN_def)
  have h4: "valid_uuid_string ''F47AC10B-58CC-4372-A567-0E02B2C3D479''" by code_simp
  have h5: "''myinst'' \<noteq> []" by simp
  have h6: "\<not> valid_uuid_string ''myinst''" by (simp add: valid_uuid_string_def)
  have l: "map tolower ''F47AC10B-58CC-4372-A567-0E02B2C3D479'' = ''f47ac10b-58cc-4372-a567-0e02b2c3d479''"
    by code_simp
  have g: "fst (uuid4_generate example_uuid_lib (replicate 37 NUL)) = 0"
    by (simp add: example_uuid_lib_def)
  show ?thesis
    using getuuid_versions [OF h1 h1 h2 h3 h4 h5 h6] h1 h4 h6 l g by simp
qed


section \<open>Properties of entity loading\<close>

text \<open>A driver without \<open>getEntity\<close> gives an error that names the driver.\<close>

lemma dlite_entity_load_no_capability:
  "getEntity (api s) = None \<Longrightarrow>
   \<exists>pre post. dlite_entity_load lib uuid s id' = Load_Error (pre @ plugin_name (api s) @ post)"
  by (auto simp: dlite_entity_load_def intro: exI [of _ "''driver '' @ [CHR 0x27]"])

text \<open>With \<open>getEntity\<close> present, the condition holds for every version, so nothing is dispatched.\<close>

lemma dlite_entity_load_never_dispatches:
  "dlite_entity_load lib uuid s id' \<noteq> Load_Dispatched r"
  by (auto simp: dlite_entity_load_def Let_def split: option.splits prod.splits)

text \<open>
  C4.  The claim: with a driver that has \<open>getEntity\<close>, an id that is a valid UUID or from
  which a version-5 UUID can be generated is turned into its uuid and passed to the
  driver's \<open>getEntity\<close>, whose result is returned.  The code does not: for the id of the
  repository's own test (\<open>test_entity_load\<close>), whatever the driver and the UUID library
  are, it reports "is not an UUID or a string that we can generate an uuid from" and
  returns NULL without calling \<open>getEntity\<close>.
\<close>

theorem dlite_entity_load_test_uri:
  "dlite_entity_load lib uuid
     \<lparr>api = \<lparr>plugin_name = ''json'', getEntity = Some get\<rparr>,
      storage_uri = path, storage_options = ''r'', writable = 0\<rparr>
     (Some ''http://www.sintef.no/calm/0.1/Chemistry'') =
   Load_Error (''id '' @ [CHR 0x27] @ ''http://www.sintef.no/calm/0.1/Chemistry'' @ [CHR 0x27] @
               '' is not an UUID or a string that we can generate an uuid from'')"
  by (auto simp: dlite_entity_load_def Let_def split: prod.splits)

theorem dlite_entity_load_test_uri_witness:
  "dlite_entity_load example_uuid_lib (replicate 37 NUL)
     \<lparr>api = \<lparr>plugin_name = ''json'', getEntity = Some (\<lambda>u. Some u)\<rparr>,
      storage_uri = ''Chemistry-0.1.json'', storage_options = ''r'', writable = 0\<rparr>
     (Some ''http://www.sintef.no/calm/0.1/Chemistry'') =
   Load_Error (''id '' @ [CHR 0x27] @ ''http://www.sintef.no/calm/0.1/Chemistry'' @ [CHR 0x27] @
               '' is not an UUID or a string that we can generate an uuid from'')"
  by (rule dlite_entity_load_test_uri)


section \<open>Properties of instances\<close>

subsection \<open>Bytes\<close>

lemma length_le_bytes: "length (le_bytes k n) = k"
  by (induction k arbitrary: n) simp_all

lemma length_bytes_of_size_t: "length (bytes_of_size_t w) = 8"
  by (simp add: bytes_of_size_t_def length_le_bytes)

lemma nat_of_bytes_Cons: "nat_of_bytes (b # bs) = unat b + 256 * nat_of_bytes bs"
  by (simp add: nat_of_bytes_def)

lemma nat_of_bytes_Nil: "nat_of_bytes [] = 0"
  by (simp add: nat_of_bytes_def)

lemma unat_byte_of_nat: "unat (of_nat (n mod 256) :: byte) = n mod 256"
  by (simp add: unat_of_nat)

lemma nat_of_bytes_le_bytes: "nat_of_bytes (le_bytes k n) = n mod 256 ^ k"
proof (induction k arbitrary: n)
  case 0
  show ?case by (simp add: nat_of_bytes_Nil)
next
  case (Suc k)
  have "nat_of_bytes (le_bytes (Suc k) n) = n mod 256 + 256 * ((n div 256) mod 256 ^ k)"
    by (simp only: le_bytes.simps nat_of_bytes_Cons unat_byte_of_nat Suc)
  also have "\<dots> = n mod (256 * 256 ^ k)"
    by (simp only: mod_mult2_eq)
  finally show ?case by simp
qed

lemma size_t_of_bytes_of_size_t: "size_t_of_bytes (bytes_of_size_t w) = w"
proof -
  have "unat w < 2 ^ 64" using unsigned_less [of w] by simp
  then have "unat w mod 256 ^ 8 = unat w" by simp
  then show ?thesis
    by (simp add: size_t_of_bytes_def bytes_of_size_t_def nat_of_bytes_le_bytes)
qed





subsection \<open>Loads and stores\<close>


lemma take_drop_store_bytes_same:
  "off + length bs \<le> length block \<Longrightarrow> take (length bs) (drop off (store_bytes block off bs)) = bs"
  by (simp add: store_bytes_def)











subsection \<open>Freeing what an instance owns\<close>








subsection \<open>What a created instance owns\<close>


lemma calloc_None:
  "calloc alloc_ok st nmemb sz = (st', None) \<Longrightarrow> st' = st"
  by (auto simp: calloc_def split: if_splits)


























subsection \<open>The functions on the example entity\<close>

lemma example_uuid:
  "dlite_get_uuid example_uuid_lib (replicate 37 NUL) (Some ''myinst'') =
     (5, ''myinst6ba7b810-9dad-11d1-80b4-00c04f'' @ [NUL])"
proof -
  have s: "''myinst'' \<noteq> []" "\<not> valid_uuid_string ''myinst''"
    by (simp_all add: valid_uuid_string_def)
  have l: "length (uuid_as_string example_uuid_lib
             (uuid_create_sha1_from_name example_uuid_lib (NameSpace_DNS example_uuid_lib)
                ''myinst'' (length ''myinst''))) = UUID_LEN"
    by (simp add: example_uuid_lib_def UUID_LEN_def)
  have t: "map tolower ''myinst6ba7b810-9dad-11d1-80b4-00c04f'' = ''myinst6ba7b810-9dad-11d1-80b4-00c04f''"
    by code_simp
  show ?thesis
    using getuuid_name [OF s l, of "replicate 37 NUL"] t
    by (simp add: dlite_get_uuid_def example_uuid_lib_def UUID_LEN_def)
qed

lemma example_meta_at: "metas example_state 1 = Some example_meta"
  by (simp add: example_state_def)

lemma example_meta_fields:
  "meta_size example_meta = 80" "dimoffset example_meta = 56" "propoffsets example_meta = [72]"
  "ndimensions example_meta = 2" "nproperties example_meta = 1" "refcount example_meta = 1"
  "properties example_meta = Some [\<lparr>prop_name = ''values'', prop_type = dliteFloat, prop_size = 8,
                          prop_ndims = 2, prop_dims = Some [0, 1],
                          prop_description = None, prop_unit = None\<rparr>]"
  by (simp_all add: example_meta_def)

lemma example_property:
  "property_at example_meta 0 =
     Some \<lparr>prop_name = ''values'', prop_type = dliteFloat, prop_size = 8,
           prop_ndims = 2, prop_dims = Some [0, 1],
           prop_description = None, prop_unit = None\<rparr>"
  by (simp add: property_at_def example_meta_fields)


lemma example_header:
  "init_header (\<lambda>n. True) (zero_instance example_meta) 5
     (''myinst6ba7b810-9dad-11d1-80b4-00c04f'' @ [NUL]) (Some ''myinst'') 1 =
   \<lparr>inst_uuid = ''myinst6ba7b810-9dad-11d1-80b4-00c04f'' @ [NUL],
    inst_uri = Some ''myinst'', inst_meta = Some 1, inst_block = replicate 80 0\<rparr>"
  by (simp add: init_header_def zero_instance_def strdup_def example_meta_fields
      DLITE_UUID_LENGTH_def Let_def)

lemma example_store_dims:
  "store_bytes (replicate 80 0) 56 (bytes_of_size_t d0 @ bytes_of_size_t d1) =
     replicate 56 0 @ bytes_of_size_t d0 @ bytes_of_size_t d1 @ replicate 8 0"
  unfolding store_bytes_def by (simp add: length_bytes_of_size_t)

lemma example_set_dimensions:
  "set_dimensions example_meta [d0, d1]
     \<lparr>inst_uuid = u, inst_uri = s, inst_meta = e, inst_block = replicate 80 0\<rparr> =
   Ret \<lparr>inst_uuid = u, inst_uri = s, inst_meta = e,
        inst_block = replicate 56 0 @ bytes_of_size_t d0 @ bytes_of_size_t d1 @ replicate 8 0\<rparr>"
  by (simp add: set_dimensions_def example_meta_fields in_block_def header_size_def
      example_store_dims)

lemma example_nmemb: "nmemb_loop (dim_at [d0, d1]) [0, 1] 2 0 1 = Some (d0 * d1)"
  by (simp add: nmemb_loop.simps dim_at_def)

lemma example_store_ptr:
  "store_ptr (replicate 56 0 @ bytes_of_size_t d0 @ bytes_of_size_t d1 @ replicate 8 0) 72 (Some a) =
     Ret (example_block d0 d1 a)"
  by (simp add: store_ptr_def store_size_t_def in_block_def header_size_def store_bytes_def
      length_bytes_of_size_t size_t_of_ptr_def example_block_def)

lemma example_calloc:
  "unat nm * 8 < 2 ^ 64 \<Longrightarrow>
   calloc (\<lambda>n. True) example_state nm 8 =
     (\<lparr>metas = [1 \<mapsto> example_meta], heap = [2 \<mapsto> replicate (unat nm * 8) 0], next_addr = 2\<rparr>,
      Some 2)"
  by (simp add: calloc_def example_state_def del: One_nat_def)

lemma example_alloc_props:
  assumes "unat (d0 * d1) * 8 < 2 ^ 64"
  shows "alloc_props (\<lambda>n. True) example_meta [d0, d1] 0 example_state
     \<lparr>inst_uuid = u, inst_uri = s, inst_meta = e,
      inst_block = replicate 56 0 @ bytes_of_size_t d0 @ bytes_of_size_t d1 @ replicate 8 0\<rparr> =
   Ret (\<lparr>metas = [1 \<mapsto> example_meta], heap = [2 \<mapsto> replicate (unat (d0 * d1) * 8) 0],
         next_addr = 2\<rparr>,
        \<lparr>inst_uuid = u, inst_uri = s, inst_meta = e, inst_block = example_block d0 d1 2\<rparr>, True)"
proof -
  have 1: "alloc_props (\<lambda>n. True) example_meta [d0, d1] (Suc 0) st inst = Ret (st, inst, True)"
    for st inst
    by (subst alloc_props.simps) (simp add: example_meta_fields)
  show ?thesis
    by (subst alloc_props.simps)
      (simp add: example_meta_fields(5) example_property propoffset_at_def example_meta_fields(3)
        is_array_def example_nmemb example_calloc [OF assms] example_store_ptr 1)
qed

lemma example_incref:
  "dlite_entity_incref \<lparr>metas = [1 \<mapsto> example_meta], heap = h, next_addr = n\<rparr> (Some 1) =
     Ret \<lparr>metas = [1 \<mapsto> example_meta\<lparr>refcount := 2\<rparr>], heap = h, next_addr = n\<rparr>"
  by (simp add: dlite_entity_incref_def example_meta_fields(6) INT_MAX_def)

lemma example_create_dims:
  assumes "unat (d0 * d1) * 8 < 2 ^ 64"
  shows "dlite_instance_create example_uuid_lib (\<lambda>n. True) 1 (replicate 37 NUL) example_state 1
           [d0, d1] (Some ''myinst'') =
         Ret (\<lparr>metas = [1 \<mapsto> example_meta\<lparr>refcount := 2\<rparr>],
               heap = [2 \<mapsto> replicate (unat (d0 * d1) * 8) 0], next_addr = 2\<rparr>,
              Some \<lparr>inst_uuid = ''myinst6ba7b810-9dad-11d1-80b4-00c04f'' @ [NUL],
                    inst_uri = Some ''myinst'', inst_meta = Some 1,
                    inst_block = example_block d0 d1 2\<rparr>)"
  unfolding dlite_instance_create_def
  by (simp only: example_meta_at example_uuid example_header example_set_dimensions
      example_alloc_props [OF assms] example_incref option.case result.case prod.case
      simp_thms if_True if_False)
    simp

lemma example_create:
  "dlite_instance_create example_uuid_lib (\<lambda>n. True) 1 (replicate 37 NUL) example_state 1 [3, 2]
     (Some ''myinst'') = Ret (example_state_created, Some example_instance)"
proof -
  have "unat (3 * 2 :: size_t) * 8 = 48" by simp
  then show ?thesis
    using example_create_dims [of 3 2]
    by (simp add: example_state_created_def example_instance_def)
qed

lemma example_block_dims:
  "load_size_t (example_block d0 d1 a) 56 = Ret d0"
  "load_size_t (example_block d0 d1 a) 64 = Ret d1"
  "load_size_t (example_block d0 d1 a) 72 = Ret (of_nat a)"
  by (simp_all add: load_size_t_def in_block_def header_size_def example_block_def
      length_bytes_of_size_t size_t_of_bytes_of_size_t)

lemma example_block_ptr: "load_ptr (example_block d0 d1 2) 72 = Ret (Some 2)"
  by (simp add: load_ptr_def example_block_dims ptr_of_size_t_def)

subsection \<open>Creation\<close>

text \<open>
  \<open>strdup\<close> is not checked: when the allocator refuses the copy of \<open>id\<close>, the instance
  of a version 5 uuid is left with a NULL uri.
\<close>

lemma init_header_strdup_fails:
  "\<not> alloc_ok (length s + 1) \<Longrightarrow>
   inst_uri (init_header alloc_ok inst 5 uuid (Some s) meta) = None"
  by (simp add: init_header_def strdup_def Let_def)

text \<open>
  C2.  The claim: every array property of a created instance points to an array of
  (product of the dimension sizes) elements of \<open>prop.size\<close> bytes.  The example entity
  has one property, a float array of rank 2 over both dimensions, with elements of 8
  bytes.  Created with \<open>dims = {2^63 + 1, 2}\<close> and \<open>id = "myinst"\<close>, the instance is
  returned, its slot at byte 72 points to the array at address 2, and that array has
  16 bytes, 2 elements, while the product of the dimension sizes is \<open>2^64 + 2\<close>: the
  product \<open>nmemb\<close> wraps in \<open>size_t\<close> and is passed to \<open>calloc\<close> unchecked.
\<close>

theorem dlite_instance_create_overflow:
  "dlite_instance_create example_uuid_lib (\<lambda>n. True) 1 (replicate 37 NUL) example_state 1
     [2 ^ 63 + 1, 2] (Some ''myinst'') =
     Ret (example_state_created\<lparr>heap := [2 \<mapsto> replicate 16 0]\<rparr>,
          Some (example_instance\<lparr>inst_block := example_block (2 ^ 63 + 1) 2 2\<rparr>)) \<and>
   load_ptr (example_block (2 ^ 63 + 1) 2 2) 72 = Ret (Some 2) \<and>
   map_option length (heap (example_state_created\<lparr>heap := [2 \<mapsto> replicate 16 0]\<rparr>) 2) = Some (2 * 8) \<and>
   unat (2 ^ 63 + 1 :: size_t) * unat (2 :: size_t) = 2 ^ 64 + 2"
proof -
  have w: "(2 ^ 63 + 1) * 2 = (2 :: size_t)" by simp
  have u: "unat ((2 ^ 63 + 1) * 2 :: size_t) * 8 = 16" unfolding w by simp
  have l: "unat ((2 ^ 63 + 1) * 2 :: size_t) * 8 < 2 ^ 64" unfolding u by simp
  have 1: "dlite_instance_create example_uuid_lib (\<lambda>n. True) 1 (replicate 37 NUL) example_state 1
     [2 ^ 63 + 1, 2] (Some ''myinst'') =
     Ret (example_state_created\<lparr>heap := [2 \<mapsto> replicate 16 0]\<rparr>,
          Some (example_instance\<lparr>inst_block := example_block (2 ^ 63 + 1) 2 2\<rparr>))"
    unfolding example_create_dims [OF l] u
    by (simp add: example_state_created_def example_instance_def)
  have 2: "map_option length (heap (example_state_created\<lparr>heap := [2 \<mapsto> replicate 16 0]\<rparr>) 2) = Some (2 * 8)"
    by simp
  have 3: "unat (2 ^ 63 + 1 :: size_t) * unat (2 :: size_t) = 2 ^ 64 + 2" by simp
  show ?thesis by (intro conjI 1 example_block_ptr 2 3)
qed

subsection \<open>Reference counts\<close>



subsection \<open>Dimension sizes\<close>

text \<open>
  An index below \<open>nproperties\<close> gives the 8 bytes at \<open>dimoffset + 8 * i\<close> of the block,
  whether or not \<open>i\<close> is the index of a dimension.
\<close>

lemma get_dimension_size_by_index_slot:
  "inst_meta inst = Some a \<Longrightarrow> metas st a = Some meta \<Longrightarrow> i < nproperties meta \<Longrightarrow>
   load_size_t (inst_block inst) (int (dimoffset meta) + 8 * int i) = Ret w \<Longrightarrow>
   dlite_instance_get_dimension_size_by_index st inst i = Ret (int_of_size_t w)"
  by (simp add: dlite_instance_get_dimension_size_by_index_def dimension_slot_def)

text \<open>An index from \<open>nproperties\<close> on is refused, whatever \<open>ndimensions\<close> is.\<close>

lemma get_dimension_size_by_index_refused:
  "inst_meta inst = Some a \<Longrightarrow> metas st a = Some meta \<Longrightarrow> nproperties meta \<le> i \<Longrightarrow>
   dlite_instance_get_dimension_size_by_index st inst i = Ret (- 1)"
  by (simp add: dlite_instance_get_dimension_size_by_index_def errx_def)

lemma example_dimension_index:
  "dlite_meta_get_dimension_index (example_meta\<lparr>refcount := 2\<rparr>) ''M'' = Ret 1"
  by (simp add: dlite_meta_get_dimension_index_def dimension_index_loop.simps example_meta_def)

text \<open>
  C7.  The claim: for every dimension of the entity, by name and by every index below
  \<open>ndimensions\<close>, the accessors return the size bound at creation.  The example entity
  has two dimensions and one property; the instance created with sizes 3 and 2 has
  dimension \<open>M\<close>, of index 1, bound to 2.  Both accessors compare the index with
  \<open>nproperties\<close> (which is 1) and return -1.
\<close>

theorem get_dimension_size_second_dimension:
  "dlite_instance_create example_uuid_lib (\<lambda>n. True) 1 (replicate 37 NUL) example_state 1 [3, 2]
     (Some ''myinst'') = Ret (example_state_created, Some example_instance) \<and>
   ndimensions example_meta = 2 \<and>
   load_size_t (inst_block example_instance) (int (dimoffset example_meta) + 8 * 1) = Ret 2 \<and>
   dlite_instance_get_dimension_size_by_index example_state_created example_instance 1 = Ret (- 1) \<and>
   dlite_instance_get_dimension_size example_state_created example_instance ''M'' = Ret (- 1)"
proof -
  have 2: "ndimensions example_meta = 2" by (simp add: example_meta_fields)
  have 3: "load_size_t (inst_block example_instance) (int (dimoffset example_meta) + 8 * 1) = Ret 2"
    by (simp add: example_instance_def example_meta_fields example_block_dims)
  have im: "inst_meta example_instance = Some 1" by (simp add: example_instance_def)
  have ms: "metas example_state_created 1 = Some (example_meta\<lparr>refcount := 2\<rparr>)"
    by (simp add: example_state_created_def)
  have np: "nproperties (example_meta\<lparr>refcount := 2\<rparr>) = 1" by (simp add: example_meta_fields)
  have 4: "dlite_instance_get_dimension_size_by_index example_state_created example_instance 1 = Ret (- 1)"
    by (rule get_dimension_size_by_index_refused [OF im ms]) (simp add: np)
  have 5: "dlite_instance_get_dimension_size example_state_created example_instance ''M'' = Ret (- 1)"
    unfolding dlite_instance_get_dimension_size_def
    by (simp add: im ms example_dimension_index np errx_def del: One_nat_def)
  show ?thesis by (intro conjI example_create 2 3 4 5)
qed


section \<open>Properties of collections\<close>
















lemma triples_collection_a:
  "triples collection_a =
     [(''a'', ''_is-a'', ''Instance''),
      (''a'', ''_has-uuid'', ''myinst6ba7b810-9dad-11d1-80b4-00c04f''),
      (''a'', ''_has-meta'', ''http://example.org/0.1/Grid'')]"
  by (simp add: triples_def triple_of_def collection_a_def)


text \<open>
  C10.  When the collection holds no triple \<open>(L, _is-a, Instance)\<close>,
  \<open>dlite_collection_remove(coll, L)\<close> returns 1 and the collection, its triple store
  included, is as it was.
\<close>

theorem dlite_collection_remove_unmarked:
  assumes "(label, ''_is-a'', ''Instance'') \<notin> set (triples coll)"
  shows "dlite_collection_remove coll label = (1, coll)"
proof -
  have n: "\<forall>t\<in>set (triplets (store coll)). \<not> matches (Some label) (Some ''_is-a'') (Some ''Instance'') t"
    using assms by (auto simp: triples_def triple_of_def matches_def)
  then have f: "filter (matches (Some label) (Some ''_is-a'') (Some ''Instance'')) (triplets (store coll)) = []"
    by (simp add: filter_empty_conv)
  have g: "filter (\<lambda>t. \<not> matches (Some label) (Some ''_is-a'') (Some ''Instance'') t) (triplets (store coll))
           = triplets (store coll)"
    using n by (simp add: filter_id_conv)
  show ?thesis
    by (simp add: dlite_collection_remove_def dlite_collection_remove_relations_def
        triplestore_remove_def f g)
qed

theorem dlite_collection_remove_unmarked_witness:
  "(''b'', ''_is-a'', ''Instance'') \<notin> set (triples collection_a) \<and>
   dlite_collection_remove collection_a ''b'' = (1, collection_a)"
proof -
  have h: "(''b'', ''_is-a'', ''Instance'') \<notin> set (triples collection_a)"
    by (simp add: triples_collection_a)
  show ?thesis using dlite_collection_remove_unmarked [OF h] h by simp
qed





end
